theory Spec2Isabelle
  imports Main
begin

section \<open>Web Connectivity summary: the blocking classification of probe-engine\<close>

text \<open>
  The development embeds \<^verbatim>\<open>Summarize\<close> and \<^verbatim>\<open>DetermineBlocking\<close> of package
  \<^verbatim>\<open>webconnectivity\<close> (the second Go file carried by \<^verbatim>\<open>src/experiment/dash/play.go\<close>,
  lines 68 to 277 of that file). Go pointers to scalars (\<^verbatim>\<open>*bool\<close>, \<^verbatim>\<open>*string\<close>) are
  \<open>option\<close> values, \<^verbatim>\<open>nil\<close> being \<open>None\<close>. A run-time panic is a value of type
  \<open>panic\<close>, and every function that reads through a pointer or indexes a slice returns
  \<open>panic + 'a\<close>, so that each dereference of the source is a branch of the model.
\<close>

subsection \<open>Run-time panics and the operations that may raise them\<close>

datatype panic = NilPointerDereference | IndexOutOfRange

text \<open>\<^verbatim>\<open>*p\<close>: reading through a pointer panics on \<^verbatim>\<open>nil\<close>.\<close>

definition deref :: "'a option \<Rightarrow> panic + 'a" where
  "deref p = (case p of None \<Rightarrow> Inl NilPointerDereference | Some v \<Rightarrow> Inr v)"

text \<open>\<^verbatim>\<open>xs[i]\<close>: indexing a slice panics when the index is not below its length.\<close>

definition index :: "'a list \<Rightarrow> nat \<Rightarrow> panic + 'a" where
  "index xs i = (if i < length xs then Inr (xs ! i) else Inl IndexOutOfRange)"

text \<open>Sequencing: a panic of the first computation is the panic of the whole.\<close>

definition bindP :: "panic + 'a \<Rightarrow> ('a \<Rightarrow> panic + 'b) \<Rightarrow> panic + 'b" where
  "bindP m f = (case m of Inl e \<Rightarrow> Inl e | Inr v \<Rightarrow> f v)"

text \<open>
  Go's \<^verbatim>\<open>a && b\<close> evaluates \<^verbatim>\<open>b\<close> only when \<^verbatim>\<open>a\<close> is true: a panic inside \<^verbatim>\<open>b\<close> is
  raised only then.
\<close>

definition andalso :: "panic + bool \<Rightarrow> panic + bool \<Rightarrow> panic + bool" where
  "andalso a b = (case a of Inl e \<Rightarrow> Inl e | Inr c \<Rightarrow> if c then b else Inr False)"

text \<open>\<^verbatim>\<open>if c { t } e\<close> where the condition itself may panic.\<close>

definition ifP :: "panic + bool \<Rightarrow> panic + 'a \<Rightarrow> panic + 'a \<Rightarrow> panic + 'a" where
  "ifP c t e = (case c of Inl x \<Rightarrow> Inl x | Inr b \<Rightarrow> if b then t else e)"

text \<open>
  \<^verbatim>\<open>strings.HasPrefix(s, prefix)\<close> of the Go standard library:
  \<^verbatim>\<open>len(s) >= len(prefix) && s[:len(prefix)] == prefix\<close>.
\<close>

definition HasPrefix :: "string \<Rightarrow> string \<Rightarrow> bool" where
  "HasPrefix s pre = (length pre \<le> length s \<and> take (length pre) s = pre)"

subsection \<open>Constants declared outside the files at hand\<close>

text \<open>
  Modelled from the spec: the failure strings of package \<^verbatim>\<open>modelx\<close>, whose declarations
  are not among the source files. The spec's data model lists the identifiers
  \<^verbatim>\<open>connection_refused\<close>, \<^verbatim>\<open>connection_reset\<close>, \<^verbatim>\<open>dns_nxdomain_error\<close>, \<^verbatim>\<open>eof_error\<close>,
  \<^verbatim>\<open>generic_timeout_error\<close>, \<^verbatim>\<open>ssl_invalid_hostname\<close>, \<^verbatim>\<open>ssl_invalid_certificate\<close> and
  \<^verbatim>\<open>ssl_unknown_authority\<close>.
\<close>

definition FailureConnectionRefused :: string where
  "FailureConnectionRefused = ''connection_refused''"

definition FailureConnectionReset :: string where
  "FailureConnectionReset = ''connection_reset''"

definition FailureDNSNXDOMAINError :: string where
  "FailureDNSNXDOMAINError = ''dns_nxdomain_error''"

definition FailureEOFError :: string where
  "FailureEOFError = ''eof_error''"

definition FailureGenericTimeoutError :: string where
  "FailureGenericTimeoutError = ''generic_timeout_error''"

definition FailureSSLInvalidHostname :: string where
  "FailureSSLInvalidHostname = ''ssl_invalid_hostname''"

definition FailureSSLInvalidCertificate :: string where
  "FailureSSLInvalidCertificate = ''ssl_invalid_certificate''"

definition FailureSSLUnknownAuthority :: string where
  "FailureSSLUnknownAuthority = ''ssl_unknown_authority''"

text \<open>
  Modelled from the spec: the two values of \<^verbatim>\<open>DNSConsistency\<close> that \<^verbatim>\<open>Summarize\<close>
  compares with (\<^verbatim>\<open>DNSConsistent\<close>, \<^verbatim>\<open>DNSInconsistent\<close>); their declarations are not among
  the source files. The spec names them Consistent and Inconsistent. The field is read
  through a pointer and the \<^verbatim>\<open>switch\<close> over it has a \<^verbatim>\<open>default\<close> branch, so the field's
  type holds other values too: it is a string here, and nothing below depends on the two
  spellings beyond their being different.
\<close>

definition DNSConsistent :: string where
  "DNSConsistent = ''consistent''"

definition DNSInconsistent :: string where
  "DNSInconsistent = ''inconsistent''"

subsection \<open>The measurement record\<close>

text \<open>
  Modelled from the spec: the declaration of \<^verbatim>\<open>TestKeys\<close> and of the types of its fields
  is not among the source files. The records below hold exactly the fields that
  \<^verbatim>\<open>Summarize\<close> reads, with the types its expressions force: a field compared with
  \<^verbatim>\<open>nil\<close> and read with \<^verbatim>\<open>*\<close> is a pointer (\<open>option\<close>), \<^verbatim>\<open>Requests\<close> is a slice,
  \<^verbatim>\<open>Request\<close>, \<^verbatim>\<open>Control\<close> and \<^verbatim>\<open>HTTPRequest\<close> are struct values (the spec: only scalar
  fields are nilable pointers), the two counters are signed integers that are only ever
  compared with zero. The field \<^verbatim>\<open>Control.HTTPRequest.Failure\<close> is named \<open>HTTPFailure\<close>:
  \<open>Failure\<close> is the field of a request entry.
\<close>

record HTTPRequest_t =
  URL :: string

record RequestEntry =
  Failure :: "string option"
  Request :: HTTPRequest_t

record ControlHTTPRequestResult =
  HTTPFailure :: "string option"

record ControlResponse =
  HTTPRequest :: ControlHTTPRequestResult

record TestKeys =
  Requests :: "RequestEntry list"
  ControlFailure :: "string option"
  DNSExperimentFailure :: "string option"
  DNSConsistency :: "string option"
  TCPConnectAttempts :: int
  TCPConnectSuccesses :: int
  Control :: ControlResponse
  StatusCodeMatch :: "bool option"
  BodyLengthMatch :: "bool option"
  HeadersMatch :: "bool option"
  TitleMatch :: "bool option"

subsection \<open>The summary\<close>

text \<open>
  \<^verbatim>\<open>Blocking\<close> is an \<^verbatim>\<open>interface{}\<close>. The values it takes here are the untyped
  \<^verbatim>\<open>nil\<close> of a fresh \<^verbatim>\<open>Summary\<close>, a \<^verbatim>\<open>bool\<close>, and a \<^verbatim>\<open>*string\<close>, which may be a nil
  pointer. On the wire (\<^verbatim>\<open>json:"blocking"\<close>) a nil pointer is \<^verbatim>\<open>null\<close>, a pointer to a
  string is that string, and a bool is itself.
\<close>

datatype iface = NilInterface | BoolValue bool | StringPointer "string option"

record Summary =
  Accessible :: "bool option"
  BlockingReason :: "string option"
  Blocking :: iface

text \<open>The zero value of the named result \<^verbatim>\<open>out\<close> on entry to \<^verbatim>\<open>Summarize\<close>.\<close>

definition zeroSummary :: Summary where
  "zeroSummary = \<lparr>Accessible = None, BlockingReason = None, Blocking = NilInterface\<rparr>"

text \<open>\<^verbatim>\<open>DetermineBlocking\<close> (lines 117 to 122).\<close>

definition DetermineBlocking :: "Summary \<Rightarrow> panic + iface" where
  "DetermineBlocking s =
     ifP (andalso (Inr (Accessible s \<noteq> None))
                  (bindP (deref (Accessible s)) (\<lambda>a. Inr (a = True))))
       (Inr (BoolValue False))
       (Inr (StringPointer (BlockingReason s)))"

subsection \<open>Summarize\<close>

text \<open>The local variables of \<^verbatim>\<open>Summarize\<close> (lines 136 to 143).\<close>

definition accessible :: bool where "accessible = True"
definition inaccessible :: bool where "inaccessible = False"
definition dns :: string where "dns = ''dns''"
definition httpDiff :: string where "httpDiff = ''http-diff''"
definition httpFailure :: string where "httpFailure = ''http-failure''"
definition tcpIP :: string where "tcpIP = ''tcp_ip''"

text \<open>
  The \<^verbatim>\<open>switch\<close> over \<^verbatim>\<open>*tk.Requests[0].Failure\<close> (lines 196 to 235), as a function of
  the failure string and of the summary under construction. The cases are tried in the
  order of the source; the \<^verbatim>\<open>default\<close> case changes nothing.
\<close>

definition classifyFailure :: "string \<Rightarrow> Summary \<Rightarrow> Summary" where
  "classifyFailure f out =
     (if f = FailureConnectionRefused then
        out\<lparr>BlockingReason := Some tcpIP, Accessible := Some inaccessible\<rparr>
      else if f = FailureConnectionReset then
        out\<lparr>BlockingReason := Some httpFailure, Accessible := Some inaccessible\<rparr>
      else if f = FailureDNSNXDOMAINError then
        out\<lparr>BlockingReason := Some dns, Accessible := Some inaccessible\<rparr>
      else if f = FailureEOFError then
        out\<lparr>BlockingReason := Some httpFailure, Accessible := Some inaccessible\<rparr>
      else if f = FailureGenericTimeoutError then
        out\<lparr>BlockingReason := Some tcpIP, Accessible := Some inaccessible\<rparr>
      else if f = FailureSSLInvalidHostname \<or> f = FailureSSLInvalidCertificate
              \<or> f = FailureSSLUnknownAuthority then
        out\<lparr>BlockingReason := Some httpFailure, Accessible := Some inaccessible\<rparr>
      else out)"

text \<open>
  The end of the function (lines 267 to 276), reached from the content comparison when
  no \<^verbatim>\<open>return\<close> was taken inside it: blame the DNS when it is inconsistent, the page
  otherwise.
\<close>

definition blameDNSOrDiff :: "TestKeys \<Rightarrow> Summary \<Rightarrow> panic + Summary" where
  "blameDNSOrDiff tk out =
     ifP (andalso (Inr (DNSConsistency tk \<noteq> None))
                  (bindP (deref (DNSConsistency tk)) (\<lambda>d. Inr (d = DNSInconsistent))))
       (Inr (out\<lparr>BlockingReason := Some dns, Accessible := Some inaccessible\<rparr>))
       (Inr (out\<lparr>BlockingReason := Some httpDiff, Accessible := Some inaccessible\<rparr>))"

text \<open>
  The body of \<^verbatim>\<open>Summarize\<close> (lines 149 to 276) for a non-nil \<^verbatim>\<open>tk\<close>: the value of
  \<^verbatim>\<open>out\<close> at the \<^verbatim>\<open>return\<close> that is taken. Each \<^verbatim>\<open>if ... { ...; return }\<close> of the source is
  one \<open>ifP\<close> whose else-branch is the rest of the function.
\<close>

definition rules :: "TestKeys \<Rightarrow> Summary \<Rightarrow> panic + Summary" where
  "rules tk out =
     ifP (andalso (Inr (length (Requests tk) > 0))
         (andalso (bindP (index (Requests tk) 0) (\<lambda>r. Inr (Failure r = None)))
                  (bindP (index (Requests tk) 0)
                     (\<lambda>r. Inr (HasPrefix (URL (Request r)) ''https://'')))))
       (Inr (out\<lparr>Accessible := Some accessible\<rparr>))
    (ifP (Inr (ControlFailure tk \<noteq> None))
       (Inr out)
    (ifP (andalso (Inr (DNSExperimentFailure tk \<noteq> None))
         (andalso (bindP (deref (DNSExperimentFailure tk))
                     (\<lambda>f. Inr (f = FailureDNSNXDOMAINError)))
         (andalso (Inr (DNSConsistency tk \<noteq> None))
                  (bindP (deref (DNSConsistency tk)) (\<lambda>d. Inr (d = DNSConsistent))))))
       (Inr out)
    (ifP (andalso (Inr (TCPConnectAttempts tk > 0))
         (andalso (Inr (TCPConnectSuccesses tk \<le> 0))
                  (Inr (DNSConsistency tk \<noteq> None))))
       (bindP (deref (DNSConsistency tk)) (\<lambda>d.
          if d = DNSConsistent then
            Inr (out\<lparr>BlockingReason := Some tcpIP, Accessible := Some inaccessible\<rparr>)
          else if d = DNSInconsistent then
            Inr (out\<lparr>BlockingReason := Some dns, Accessible := Some inaccessible\<rparr>)
          else Inr out))
    (ifP (Inr (HTTPFailure (HTTPRequest (Control tk)) \<noteq> None))
       (Inr out)
    (ifP (Inr (length (Requests tk) < 1))
       (Inr out)
    (ifP (bindP (index (Requests tk) 0) (\<lambda>r. Inr (Failure r \<noteq> None)))
       (bindP (index (Requests tk) 0) (\<lambda>r. bindP (deref (Failure r)) (\<lambda>f.
          let out1 = classifyFailure f out in
          ifP (andalso (Inr (BlockingReason out1 \<noteq> None))
              (andalso (Inr (length (Requests tk) = 1))
              (andalso (Inr (DNSConsistency tk \<noteq> None))
                       (bindP (deref (DNSConsistency tk))
                          (\<lambda>d. Inr (d = DNSInconsistent))))))
            (Inr (out1\<lparr>BlockingReason := Some dns\<rparr>))
            (Inr out1))))
    (ifP (andalso (Inr (StatusCodeMatch tk \<noteq> None)) (deref (StatusCodeMatch tk)))
       (ifP (andalso (Inr (BodyLengthMatch tk \<noteq> None)) (deref (BodyLengthMatch tk)))
          (Inr (out\<lparr>Accessible := Some accessible\<rparr>))
       (ifP (andalso (Inr (HeadersMatch tk \<noteq> None)) (deref (HeadersMatch tk)))
          (Inr (out\<lparr>Accessible := Some accessible\<rparr>))
       (ifP (andalso (Inr (TitleMatch tk \<noteq> None)) (deref (TitleMatch tk)))
          (Inr (out\<lparr>Accessible := Some accessible\<rparr>))
          (blameDNSOrDiff tk out))))
       (blameDNSOrDiff tk out))))))))"

text \<open>
  \<^verbatim>\<open>Summarize\<close> (lines 131 to 277). The argument is a pointer to the record, read at the
  first statement. The deferred function (lines 133 to 135) runs at whichever \<^verbatim>\<open>return\<close>
  is taken and stores \<^verbatim>\<open>DetermineBlocking(out)\<close> in \<^verbatim>\<open>out.Blocking\<close>; after a panic there
  is no result and the panic goes on to the caller.
\<close>

definition Summarize :: "TestKeys option \<Rightarrow> panic + Summary" where
  "Summarize p =
     bindP (deref p) (\<lambda>tk.
     bindP (rules tk zeroSummary) (\<lambda>out.
     bindP (DetermineBlocking out) (\<lambda>b.
     Inr (out\<lparr>Blocking := b\<rparr>))))"

text \<open>
  The condition of the first \<^verbatim>\<open>if\<close> (lines 149 and 150) read as a predicate on the
  record: a first request exists, it did not fail and its URL starts with
  \<^verbatim>\<open>https://\<close>. Lemma \<open>httpsShortcut_guard\<close> below shows that this is what the guarded
  expression of \<open>rules\<close> evaluates to.
\<close>

definition httpsShortcut :: "TestKeys \<Rightarrow> bool" where
  "httpsShortcut tk =
     (case Requests tk of
        [] \<Rightarrow> False
      | r # _ \<Rightarrow> Failure r = None \<and> HasPrefix (URL (Request r)) ''https://'')"

section \<open>Evaluating the guarded expressions\<close>

lemma bindP_simps:
  "bindP (Inr v) f = f v" "bindP (Inl e) f = Inl e"
  by (simp_all add: bindP_def)

lemma andalso_simps:
  "andalso (Inr c) b = (if c then b else Inr False)" "andalso (Inl e) b = Inl e"
  by (simp_all add: andalso_def)

lemma ifP_simps:
  "ifP (Inr b) t e = (if b then t else e)" "ifP (Inl x) t e = Inl x"
  by (simp_all add: ifP_def)

lemma deref_simps:
  "deref (Some v) = Inr v" "deref None = Inl NilPointerDereference"
  by (simp_all add: deref_def)

lemma index_simps:
  "index (x # xs) 0 = Inr x" "index [] i = Inl IndexOutOfRange"
  by (simp_all add: index_def)

lemmas panic_simps = bindP_simps andalso_simps ifP_simps deref_simps index_simps

text \<open>A presence check followed by a read never panics: the two idioms of the source.\<close>

lemma guard_pointer_equals:
  "andalso (Inr (p \<noteq> None)) (bindP (deref p) (\<lambda>x. Inr (x = v))) = Inr (p = Some v)"
  by (cases p) (simp_all add: panic_simps)

lemma guard_pointer_true:
  "andalso (Inr (p \<noteq> None)) (deref p) = Inr (p = Some True)"
  by (cases p) (simp_all add: panic_simps)

lemma httpsShortcut_guard:
  "andalso (Inr (length (Requests tk) > 0))
     (andalso (bindP (index (Requests tk) 0) (\<lambda>r. Inr (Failure r = None)))
              (bindP (index (Requests tk) 0)
                 (\<lambda>r. Inr (HasPrefix (URL (Request r)) ''https://''))))
   = Inr (httpsShortcut tk)"
  by (cases "Requests tk") (simp_all add: httpsShortcut_def panic_simps)

lemma DNS_values_differ: "DNSConsistent \<noteq> DNSInconsistent"
  by (simp add: DNSConsistent_def DNSInconsistent_def)

lemma DetermineBlocking_eq:
  "DetermineBlocking s =
     Inr (if Accessible s = Some True then BoolValue False
          else StringPointer (BlockingReason s))"
  unfolding DetermineBlocking_def guard_pointer_equals ifP_simps by simp

lemma blameDNSOrDiff_eq:
  "blameDNSOrDiff tk out =
     Inr (if DNSConsistency tk = Some DNSInconsistent
          then out\<lparr>BlockingReason := Some dns, Accessible := Some inaccessible\<rparr>
          else out\<lparr>BlockingReason := Some httpDiff, Accessible := Some inaccessible\<rparr>)"
  unfolding blameDNSOrDiff_def guard_pointer_equals ifP_simps by simp

section \<open>The rule chain in closed form\<close>

text \<open>
  With no request recorded only the first five rules can decide; the sixth returns the
  summary unchanged.
\<close>

lemma rules_Nil:
  assumes "Requests tk = []"
  shows "rules tk out = Inr
     (if ControlFailure tk \<noteq> None then out
      else if DNSExperimentFailure tk = Some FailureDNSNXDOMAINError
              \<and> DNSConsistency tk = Some DNSConsistent then out
      else if 0 < TCPConnectAttempts tk \<and> TCPConnectSuccesses tk \<le> 0
              \<and> DNSConsistency tk = Some DNSConsistent
           then out\<lparr>BlockingReason := Some tcpIP, Accessible := Some inaccessible\<rparr>
      else if 0 < TCPConnectAttempts tk \<and> TCPConnectSuccesses tk \<le> 0
              \<and> DNSConsistency tk = Some DNSInconsistent
           then out\<lparr>BlockingReason := Some dns, Accessible := Some inaccessible\<rparr>
      else out)"
  using assms
  by (cases "DNSConsistency tk"; cases "DNSExperimentFailure tk")
     (simp_all add: rules_def panic_simps)

lemma rules_Cons:
  assumes "Requests tk = r # rs"
  shows "rules tk out = Inr
     (if Failure r = None \<and> HasPrefix (URL (Request r)) ''https://''
        then out\<lparr>Accessible := Some accessible\<rparr>
      else if ControlFailure tk \<noteq> None then out
      else if DNSExperimentFailure tk = Some FailureDNSNXDOMAINError
              \<and> DNSConsistency tk = Some DNSConsistent then out
      else if 0 < TCPConnectAttempts tk \<and> TCPConnectSuccesses tk \<le> 0
              \<and> DNSConsistency tk = Some DNSConsistent
           then out\<lparr>BlockingReason := Some tcpIP, Accessible := Some inaccessible\<rparr>
      else if 0 < TCPConnectAttempts tk \<and> TCPConnectSuccesses tk \<le> 0
              \<and> DNSConsistency tk = Some DNSInconsistent
           then out\<lparr>BlockingReason := Some dns, Accessible := Some inaccessible\<rparr>
      else if 0 < TCPConnectAttempts tk \<and> TCPConnectSuccesses tk \<le> 0
              \<and> DNSConsistency tk \<noteq> None then out
      else if HTTPFailure (HTTPRequest (Control tk)) \<noteq> None then out
      else case Failure r of
        Some f \<Rightarrow>
          if BlockingReason (classifyFailure f out) \<noteq> None \<and> length (Requests tk) = 1
             \<and> DNSConsistency tk = Some DNSInconsistent
          then (classifyFailure f out)\<lparr>BlockingReason := Some dns\<rparr>
          else classifyFailure f out
      | None \<Rightarrow>
          if StatusCodeMatch tk = Some True
             \<and> (BodyLengthMatch tk = Some True \<or> HeadersMatch tk = Some True
                \<or> TitleMatch tk = Some True)
          then out\<lparr>Accessible := Some accessible\<rparr>
          else if DNSConsistency tk = Some DNSInconsistent
          then out\<lparr>BlockingReason := Some dns, Accessible := Some inaccessible\<rparr>
          else out\<lparr>BlockingReason := Some httpDiff, Accessible := Some inaccessible\<rparr>)"
proof (cases "Failure r")
  case None
  with assms show ?thesis
    unfolding rules_def guard_pointer_true blameDNSOrDiff_eq
    by (cases "DNSConsistency tk"; cases "DNSExperimentFailure tk")
       (simp_all add: panic_simps)
next
  case (Some f)
  with assms show ?thesis
    by (cases "DNSConsistency tk"; cases "DNSExperimentFailure tk")
       (auto simp add: rules_def panic_simps Let_def)
qed

text \<open>The deferred step, once the rule chain has returned.\<close>

lemma Summarize_of_rules:
  assumes "rules tk zeroSummary = Inr out"
  shows "Summarize (Some tk) = Inr (out\<lparr>Blocking :=
           if Accessible out = Some True then BoolValue False
           else StringPointer (BlockingReason out)\<rparr>)"
  using assms by (simp add: Summarize_def DetermineBlocking_eq panic_simps)

text \<open>What the \<^verbatim>\<open>switch\<close> leaves in the two fields it writes.\<close>

lemma classifyFailure_fields:
  "BlockingReason (classifyFailure f zeroSummary) \<in>
     {None, Some ''tcp_ip'', Some ''http-failure'', Some ''dns''}"
  "Accessible (classifyFailure f zeroSummary) =
     (if BlockingReason (classifyFailure f zeroSummary) = None then None else Some False)"
  "Blocking (classifyFailure f zeroSummary) = NilInterface"
  by (simp_all add: classifyFailure_def zeroSummary_def tcpIP_def httpFailure_def dns_def
        inaccessible_def)

lemmas local_values = accessible_def inaccessible_def dns_def httpDiff_def httpFailure_def
  tcpIP_def zeroSummary_def

lemmas failure_values = FailureConnectionRefused_def FailureConnectionReset_def
  FailureDNSNXDOMAINError_def FailureEOFError_def FailureGenericTimeoutError_def
  FailureSSLInvalidHostname_def FailureSSLInvalidCertificate_def FailureSSLUnknownAuthority_def

text \<open>Everything needed to run \<open>Summarize\<close> on a concrete record.\<close>

lemmas evaluate = Summarize_def rules_def blameDNSOrDiff_def DetermineBlocking_eq
  classifyFailure_def panic_simps local_values failure_values DNSConsistent_def
  DNSInconsistent_def HasPrefix_def httpsShortcut_def

lemma no_shortcut_Cons:
  assumes "\<not> httpsShortcut tk" and "Requests tk = r # rs"
  shows "(Failure r = None \<and> HasPrefix (URL (Request r)) ''https://'') = False"
  using assms by (simp add: httpsShortcut_def)

text \<open>
  The rule chain never panics, and it leaves one of six pairs in the two fields it
  writes; it never touches \<open>Blocking\<close>.
\<close>

lemma rules_outcomes:
  "\<exists>out. rules tk zeroSummary = Inr out \<and> Blocking out = NilInterface \<and>
     (Accessible out = None \<and> BlockingReason out = None
      \<or> Accessible out = Some True \<and> BlockingReason out = None
      \<or> Accessible out = Some False \<and>
        BlockingReason out \<in>
          {Some ''dns'', Some ''tcp_ip'', Some ''http-failure'', Some ''http-diff''})"
proof (cases "Requests tk")
  case Nil
  show ?thesis
    by (simp add: rules_Nil [OF Nil] local_values)
next
  case (Cons r rs)
  show ?thesis
  proof (cases "Failure r")
    case None
    then show ?thesis
      by (simp add: rules_Cons [OF Cons] local_values)
  next
    case (Some f)
    then show ?thesis
      using classifyFailure_fields [of f]
      by (auto simp add: rules_Cons [OF Cons] local_values)
  qed
qed

text \<open>
  The rule chain on a record that reaches the rule for a failed first request: the
  \<^verbatim>\<open>switch\<close>, then the override of lines 241 to 244.
\<close>

lemma Summarize_first_request_failed:
  assumes "Requests tk = r # rs" and "Failure r = Some f"
    and "ControlFailure tk = None"
    and "\<not> (DNSExperimentFailure tk = Some FailureDNSNXDOMAINError
            \<and> DNSConsistency tk = Some DNSConsistent)"
    and "\<not> (0 < TCPConnectAttempts tk \<and> TCPConnectSuccesses tk \<le> 0
            \<and> DNSConsistency tk \<noteq> None)"
    and "HTTPFailure (HTTPRequest (Control tk)) = None"
  shows "rules tk zeroSummary = Inr
     (if BlockingReason (classifyFailure f zeroSummary) \<noteq> None \<and> length (Requests tk) = 1
         \<and> DNSConsistency tk = Some DNSInconsistent
      then (classifyFailure f zeroSummary)\<lparr>BlockingReason := Some dns\<rparr>
      else classifyFailure f zeroSummary)"
  using assms(2-) by (auto simp add: rules_Cons [OF assms(1)])

section \<open>The claims\<close>

subsection \<open>C1: the HTTPS shortcut\<close>

text \<open>
  C1. Whenever at least one HTTP request was recorded, the first request did not fail and
  its URL has the scheme \<^verbatim>\<open>https\<close> (the code's test: the URL starts with
  \<^verbatim>\<open>https://\<close>), \<open>Summarize\<close> returns a summary whose \<open>Accessible\<close> is present and
  true, whatever the other fields of the record hold: control failure, DNS consistency,
  the TCP counters and the comparison flags do not occur in the hypotheses. The reason
  stays absent and the rendered \<open>Blocking\<close> is the boolean false.
\<close>

theorem https_shortcut_accessible:
  assumes "Requests tk = r # rs"
    and "Failure r = None"
    and "HasPrefix (URL (Request r)) ''https://''"
  shows "Summarize (Some tk) =
           Inr \<lparr>Accessible = Some True, BlockingReason = None, Blocking = BoolValue False\<rparr>"
proof -
  have "rules tk zeroSummary = Inr (zeroSummary\<lparr>Accessible := Some accessible\<rparr>)"
    using assms by (simp add: rules_Cons [OF assms(1)])
  from Summarize_of_rules [OF this] show ?thesis
    by (simp add: local_values)
qed

text \<open>
  A record on which every later rule would have spoken otherwise: the control failed,
  the DNS is inconsistent, no TCP connect succeeded and nothing matches.
\<close>

theorem https_shortcut_accessible_witness:
  "Summarize (Some \<lparr>Requests =
       [\<lparr>Failure = None, Request = \<lparr>URL = ''https://example.org/''\<rparr>\<rparr>,
        \<lparr>Failure = Some ''eof_error'', Request = \<lparr>URL = ''http://example.org/''\<rparr>\<rparr>],
     ControlFailure = Some ''unknown_failure'',
     DNSExperimentFailure = Some ''dns_nxdomain_error'',
     DNSConsistency = Some ''inconsistent'',
     TCPConnectAttempts = 3, TCPConnectSuccesses = 0,
     Control = \<lparr>HTTPRequest = \<lparr>HTTPFailure = Some ''eof_error''\<rparr>\<rparr>,
     StatusCodeMatch = Some False, BodyLengthMatch = Some False,
     HeadersMatch = None, TitleMatch = Some False\<rparr>)
   = Inr \<lparr>Accessible = Some True, BlockingReason = None, Blocking = BoolValue False\<rparr>"
  (is "Summarize (Some ?tk) = _")
  using https_shortcut_accessible [of ?tk "hd (Requests ?tk)" "tl (Requests ?tk)"]
  by (simp add: HasPrefix_def)

subsection \<open>C2: the rendered tri-state\<close>

text \<open>
  C2. For every record, \<open>Summarize\<close> returns a summary whose \<open>Blocking\<close> is the boolean
  false when \<open>Accessible\<close> is present and true, a nil string pointer (\<^verbatim>\<open>null\<close> on the
  wire) when \<open>Accessible\<close> is absent, and a pointer to the \<open>BlockingReason\<close> string,
  which is then present, when \<open>Accessible\<close> is present and false.
\<close>

theorem blocking_tri_state:
  "\<exists>s. Summarize (Some tk) = Inr s \<and>
     (Accessible s = Some True \<longrightarrow> Blocking s = BoolValue False) \<and>
     (Accessible s = None \<longrightarrow> Blocking s = StringPointer None) \<and>
     (Accessible s = Some False \<longrightarrow>
        (\<exists>reason. BlockingReason s = Some reason \<and> Blocking s = StringPointer (Some reason)))"
proof -
  from rules_outcomes [of tk] obtain out where out: "rules tk zeroSummary = Inr out"
    and fields: "Accessible out = None \<and> BlockingReason out = None
      \<or> Accessible out = Some True \<and> BlockingReason out = None
      \<or> Accessible out = Some False \<and>
        BlockingReason out \<in>
          {Some ''dns'', Some ''tcp_ip'', Some ''http-failure'', Some ''http-diff''}"
    by blast
  from fields show ?thesis
    by (auto simp add: Summarize_of_rules [OF out])
qed

text \<open>A plain HTTP page whose status code differs from the control's.\<close>

theorem blocking_tri_state_witness:
  "\<exists>s. Summarize (Some \<lparr>Requests =
       [\<lparr>Failure = None, Request = \<lparr>URL = ''http://example.org/''\<rparr>\<rparr>],
     ControlFailure = None, DNSExperimentFailure = None,
     DNSConsistency = Some ''consistent'',
     TCPConnectAttempts = 1, TCPConnectSuccesses = 1,
     Control = \<lparr>HTTPRequest = \<lparr>HTTPFailure = None\<rparr>\<rparr>,
     StatusCodeMatch = Some False, BodyLengthMatch = Some True,
     HeadersMatch = Some True, TitleMatch = Some True\<rparr>) = Inr s
     \<and> Accessible s = Some False \<and> BlockingReason s = Some ''http-diff''
     \<and> Blocking s = StringPointer (Some ''http-diff'')"
  (is "\<exists>s. Summarize (Some ?tk) = _ s \<and> _")
  using blocking_tri_state [of ?tk]
  by (simp add: evaluate)

subsection \<open>C3: no TCP connect succeeded\<close>

text \<open>
  C3. Take a record that no earlier rule catches: the HTTPS shortcut does not apply
  (no request, or the first one failed, or it is not \<^verbatim>\<open>https\<close>), the control did not
  fail, and the NXDOMAIN rule does not match. If at least one TCP connect was attempted,
  none succeeded and \<open>DNSConsistency\<close> is present, then the summary is decided by
  \<open>DNSConsistency\<close> alone: consistent gives inaccessible with reason \<^verbatim>\<open>tcp_ip\<close>,
  inconsistent gives inaccessible with reason \<^verbatim>\<open>dns\<close>, any other value leaves both
  fields absent. No later rule has a say: the requests, the control's HTTP failure and
  the comparison flags do not occur in the result.
\<close>

theorem tcp_total_failure:
  assumes "\<not> httpsShortcut tk"
    and "ControlFailure tk = None"
    and "\<not> (DNSExperimentFailure tk = Some FailureDNSNXDOMAINError
            \<and> DNSConsistency tk = Some DNSConsistent)"
    and "0 < TCPConnectAttempts tk"
    and "TCPConnectSuccesses tk \<le> 0"
    and "DNSConsistency tk = Some d"
  shows "Summarize (Some tk) = Inr
     (if d = DNSConsistent then
        \<lparr>Accessible = Some False, BlockingReason = Some ''tcp_ip'',
         Blocking = StringPointer (Some ''tcp_ip'')\<rparr>
      else if d = DNSInconsistent then
        \<lparr>Accessible = Some False, BlockingReason = Some ''dns'',
         Blocking = StringPointer (Some ''dns'')\<rparr>
      else
        \<lparr>Accessible = None, BlockingReason = None, Blocking = StringPointer None\<rparr>)"
proof (cases "Requests tk")
  case Nil
  show ?thesis
    using assms DNS_values_differ
    by (simp add: Summarize_of_rules [OF rules_Nil [OF Nil]] local_values)
next
  case (Cons r rs)
  show ?thesis
    using assms(2-) DNS_values_differ
    by (auto simp add: Summarize_of_rules [OF rules_Cons [OF Cons]]
          no_shortcut_Cons [OF assms(1) Cons] local_values)
qed

text \<open>
  The spec's example (three attempts, no success, consistent DNS), on a record whose
  comparison flags would otherwise make the page accessible.
\<close>

theorem tcp_total_failure_witness:
  "Summarize (Some \<lparr>Requests =
       [\<lparr>Failure = Some ''generic_timeout_error'',
         Request = \<lparr>URL = ''https://example.org/''\<rparr>\<rparr>],
     ControlFailure = None, DNSExperimentFailure = None,
     DNSConsistency = Some ''consistent'',
     TCPConnectAttempts = 3, TCPConnectSuccesses = 0,
     Control = \<lparr>HTTPRequest = \<lparr>HTTPFailure = None\<rparr>\<rparr>,
     StatusCodeMatch = Some True, BodyLengthMatch = Some True,
     HeadersMatch = None, TitleMatch = None\<rparr>)
   = Inr \<lparr>Accessible = Some False, BlockingReason = Some ''tcp_ip'',
          Blocking = StringPointer (Some ''tcp_ip'')\<rparr>"
  (is "Summarize (Some ?tk) = _")
  using tcp_total_failure [of ?tk "''consistent''"]
  by (simp add: httpsShortcut_def DNSConsistent_def FailureDNSNXDOMAINError_def)

subsection \<open>C4: classifying the failure of the first request\<close>

text \<open>
  C4. Take a record that reaches the rule for a failed first request: a first request
  exists and carries a failure \<open>f\<close> (so the HTTPS shortcut does not apply), the control
  did not fail, the NXDOMAIN rule and the guard of the TCP rule do not match, and the
  control's HTTP request did not fail. The \<^verbatim>\<open>switch\<close> of \<open>Summarize\<close> then classifies
  \<open>f\<close> exactly as the table says: \<^verbatim>\<open>connection_refused\<close> gives \<^verbatim>\<open>tcp_ip\<close>,
  \<^verbatim>\<open>connection_reset\<close> gives \<^verbatim>\<open>http-failure\<close>, \<^verbatim>\<open>dns_nxdomain_error\<close> gives \<^verbatim>\<open>dns\<close>,
  \<^verbatim>\<open>eof_error\<close> gives \<^verbatim>\<open>http-failure\<close>, \<^verbatim>\<open>generic_timeout_error\<close> gives \<^verbatim>\<open>tcp_ip\<close>, the
  three \<^verbatim>\<open>ssl_\<close> failures give \<^verbatim>\<open>http-failure\<close>, each with \<open>Accessible\<close> false; any
  other failure leaves both fields absent. The summary that \<open>Summarize\<close> returns has
  that \<open>Accessible\<close>, and that reason unless the tie-break of C5 replaces it by
  \<^verbatim>\<open>dns\<close>.
\<close>

theorem first_request_failure_classification:
  assumes "Requests tk = r # rs" and "Failure r = Some f"
    and "ControlFailure tk = None"
    and "\<not> (DNSExperimentFailure tk = Some FailureDNSNXDOMAINError
            \<and> DNSConsistency tk = Some DNSConsistent)"
    and "\<not> (0 < TCPConnectAttempts tk \<and> TCPConnectSuccesses tk \<le> 0
            \<and> DNSConsistency tk \<noteq> None)"
    and "HTTPFailure (HTTPRequest (Control tk)) = None"
  shows "let reason =
           (if f = ''connection_refused'' then Some ''tcp_ip''
            else if f = ''connection_reset'' then Some ''http-failure''
            else if f = ''dns_nxdomain_error'' then Some ''dns''
            else if f = ''eof_error'' then Some ''http-failure''
            else if f = ''generic_timeout_error'' then Some ''tcp_ip''
            else if f = ''ssl_invalid_hostname'' \<or> f = ''ssl_invalid_certificate''
                    \<or> f = ''ssl_unknown_authority'' then Some ''http-failure''
            else None);
           verdict = (if reason = None then None else Some False);
           overridden = (reason \<noteq> None \<and> length (Requests tk) = 1
                         \<and> DNSConsistency tk = Some DNSInconsistent)
         in classifyFailure f zeroSummary =
              \<lparr>Accessible = verdict, BlockingReason = reason, Blocking = NilInterface\<rparr>
            \<and> Summarize (Some tk) = Inr
              \<lparr>Accessible = verdict,
               BlockingReason = (if overridden then Some ''dns'' else reason),
               Blocking = StringPointer (if overridden then Some ''dns'' else reason)\<rparr>"
proof -
  note r = Summarize_of_rules [OF Summarize_first_request_failed [OF assms]]
  show ?thesis
    unfolding r Let_def
    by (simp add: classifyFailure_def local_values failure_values)
qed

text \<open>
  A reset on the first of two requests: the chain is longer than one, so the reason of
  the table is the final one although the DNS is inconsistent.
\<close>

theorem first_request_failure_classification_witness:
  "classifyFailure ''connection_reset'' zeroSummary =
     \<lparr>Accessible = Some False, BlockingReason = Some ''http-failure'',
      Blocking = NilInterface\<rparr>
   \<and> Summarize (Some \<lparr>Requests =
       [\<lparr>Failure = Some ''connection_reset'',
         Request = \<lparr>URL = ''http://example.org/''\<rparr>\<rparr>,
        \<lparr>Failure = None, Request = \<lparr>URL = ''http://www.example.org/''\<rparr>\<rparr>],
     ControlFailure = None, DNSExperimentFailure = None,
     DNSConsistency = Some ''inconsistent'',
     TCPConnectAttempts = 2, TCPConnectSuccesses = 2,
     Control = \<lparr>HTTPRequest = \<lparr>HTTPFailure = None\<rparr>\<rparr>,
     StatusCodeMatch = None, BodyLengthMatch = None,
     HeadersMatch = None, TitleMatch = None\<rparr>)
   = Inr \<lparr>Accessible = Some False, BlockingReason = Some ''http-failure'',
          Blocking = StringPointer (Some ''http-failure'')\<rparr>"
  (is "_ \<and> Summarize (Some ?tk) = _")
  using first_request_failure_classification
          [of ?tk "hd (Requests ?tk)" "tl (Requests ?tk)" "''connection_reset''"]
  by (simp add: FailureDNSNXDOMAINError_def Let_def)

subsection \<open>C5: the tie-break in favour of the DNS\<close>

text \<open>
  C5. On a record that reaches the rule for a failed first request (as in C4), the final
  reason is \<^verbatim>\<open>dns\<close> when the classification set a reason, exactly one request was
  recorded and \<open>DNSConsistency\<close> is present and inconsistent; \<open>Accessible\<close> stays
  false. In every other case (a chain of another length, \<open>DNSConsistency\<close> absent,
  consistent or anything else, or no reason set) the override does not fire: the final
  reason and \<open>Accessible\<close> are those of the classification.
\<close>

theorem tie_break_override:
  assumes "Requests tk = r # rs" and "Failure r = Some f"
    and "ControlFailure tk = None"
    and "\<not> (DNSExperimentFailure tk = Some FailureDNSNXDOMAINError
            \<and> DNSConsistency tk = Some DNSConsistent)"
    and "\<not> (0 < TCPConnectAttempts tk \<and> TCPConnectSuccesses tk \<le> 0
            \<and> DNSConsistency tk \<noteq> None)"
    and "HTTPFailure (HTTPRequest (Control tk)) = None"
  shows "\<exists>s. Summarize (Some tk) = Inr s
     \<and> BlockingReason s =
         (if BlockingReason (classifyFailure f zeroSummary) \<noteq> None
             \<and> length (Requests tk) = 1
             \<and> DNSConsistency tk = Some DNSInconsistent
          then Some ''dns''
          else BlockingReason (classifyFailure f zeroSummary))
     \<and> Accessible s = Accessible (classifyFailure f zeroSummary)
     \<and> (BlockingReason (classifyFailure f zeroSummary) \<noteq> None
          \<longrightarrow> Accessible s = Some False)"
proof -
  note r = Summarize_of_rules [OF Summarize_first_request_failed [OF assms]]
  show ?thesis
    unfolding r using classifyFailure_fields(2) [of f]
    by (simp add: dns_def)
qed

text \<open>
  The spec's example: \<^verbatim>\<open>connection_refused\<close> is classified \<^verbatim>\<open>tcp_ip\<close>, the chain has one
  request and the DNS is inconsistent.
\<close>

theorem tie_break_override_witness:
  "\<exists>s. Summarize (Some \<lparr>Requests =
       [\<lparr>Failure = Some ''connection_refused'',
         Request = \<lparr>URL = ''http://example.org/''\<rparr>\<rparr>],
     ControlFailure = None, DNSExperimentFailure = None,
     DNSConsistency = Some ''inconsistent'',
     TCPConnectAttempts = 1, TCPConnectSuccesses = 1,
     Control = \<lparr>HTTPRequest = \<lparr>HTTPFailure = None\<rparr>\<rparr>,
     StatusCodeMatch = None, BodyLengthMatch = None,
     HeadersMatch = None, TitleMatch = None\<rparr>) = Inr s
   \<and> BlockingReason (classifyFailure ''connection_refused'' zeroSummary) = Some ''tcp_ip''
   \<and> BlockingReason s = Some ''dns'' \<and> Accessible s = Some False"
  (is "\<exists>s. Summarize (Some ?tk) = _ s \<and> _")
  using tie_break_override
          [of ?tk "hd (Requests ?tk)" "tl (Requests ?tk)" "''connection_refused''"]
  by (simp add: evaluate)

subsection \<open>C6: comparing the page with the control's\<close>

text \<open>
  C6. Take a record that reaches the content comparison: a first request exists, did
  not fail and is not \<^verbatim>\<open>https\<close>; the control did not fail; the NXDOMAIN rule and the
  guard of the TCP rule do not match; the control's HTTP request did not fail. If the
  status codes match and at least one of body length, headers and title matches (each
  flag present and true), the page is accessible and no reason is given. Otherwise the
  page is inaccessible, with reason \<^verbatim>\<open>dns\<close> when \<open>DNSConsistency\<close> is present and
  inconsistent and \<^verbatim>\<open>http-diff\<close> when it is not.
\<close>

theorem content_comparison:
  assumes "Requests tk = r # rs" and "Failure r = None"
    and "\<not> HasPrefix (URL (Request r)) ''https://''"
    and "ControlFailure tk = None"
    and "\<not> (DNSExperimentFailure tk = Some FailureDNSNXDOMAINError
            \<and> DNSConsistency tk = Some DNSConsistent)"
    and "\<not> (0 < TCPConnectAttempts tk \<and> TCPConnectSuccesses tk \<le> 0
            \<and> DNSConsistency tk \<noteq> None)"
    and "HTTPFailure (HTTPRequest (Control tk)) = None"
  shows "Summarize (Some tk) = Inr
     (if StatusCodeMatch tk = Some True
         \<and> (BodyLengthMatch tk = Some True \<or> HeadersMatch tk = Some True
            \<or> TitleMatch tk = Some True)
      then \<lparr>Accessible = Some True, BlockingReason = None, Blocking = BoolValue False\<rparr>
      else if DNSConsistency tk = Some DNSInconsistent
      then \<lparr>Accessible = Some False, BlockingReason = Some ''dns'',
            Blocking = StringPointer (Some ''dns'')\<rparr>
      else \<lparr>Accessible = Some False, BlockingReason = Some ''http-diff'',
            Blocking = StringPointer (Some ''http-diff'')\<rparr>)"
  using assms(2-)
  by (auto simp add: Summarize_of_rules [OF rules_Cons [OF assms(1)]] local_values)

text \<open>Status code and title match, the body length does not, the DNS is inconsistent.\<close>

theorem content_comparison_witness:
  "Summarize (Some \<lparr>Requests =
       [\<lparr>Failure = None, Request = \<lparr>URL = ''http://example.org/''\<rparr>\<rparr>],
     ControlFailure = None, DNSExperimentFailure = None,
     DNSConsistency = Some ''inconsistent'',
     TCPConnectAttempts = 1, TCPConnectSuccesses = 1,
     Control = \<lparr>HTTPRequest = \<lparr>HTTPFailure = None\<rparr>\<rparr>,
     StatusCodeMatch = Some True, BodyLengthMatch = Some False,
     HeadersMatch = None, TitleMatch = Some True\<rparr>)
   = Inr \<lparr>Accessible = Some True, BlockingReason = None, Blocking = BoolValue False\<rparr>"
  (is "Summarize (Some ?tk) = _")
  using content_comparison [of ?tk "hd (Requests ?tk)" "tl (Requests ?tk)"]
  by (simp add: HasPrefix_def FailureDNSNXDOMAINError_def)

subsection \<open>C7: a failed control\<close>

text \<open>
  The claim as stated (whenever \<open>ControlFailure\<close> is present, both \<open>Accessible\<close> and
  \<open>BlockingReason\<close> are absent) does not hold: the HTTPS shortcut is tried first, and
  on the record below, whose control failed, it answers accessible.
\<close>

theorem control_failure_absence_counterexample:
  "Summarize (Some \<lparr>Requests =
       [\<lparr>Failure = None, Request = \<lparr>URL = ''https://example.org/''\<rparr>\<rparr>],
     ControlFailure = Some ''unknown_failure'', DNSExperimentFailure = None,
     DNSConsistency = None,
     TCPConnectAttempts = 0, TCPConnectSuccesses = 0,
     Control = \<lparr>HTTPRequest = \<lparr>HTTPFailure = None\<rparr>\<rparr>,
     StatusCodeMatch = None, BodyLengthMatch = None,
     HeadersMatch = None, TitleMatch = None\<rparr>)
   = Inr \<lparr>Accessible = Some True, BlockingReason = None, Blocking = BoolValue False\<rparr>"
  by (simp add: evaluate)

text \<open>
  C7, amended. Whenever \<open>ControlFailure\<close> is present and the HTTPS shortcut does not
  apply (no request was recorded, or the first request failed, or its URL does not start
  with \<^verbatim>\<open>https://\<close>), \<open>Summarize\<close> returns a summary in which both \<open>Accessible\<close> and
  \<open>BlockingReason\<close> are absent; its \<open>Blocking\<close> is a nil pointer.
\<close>

theorem control_failure_absence:
  assumes "ControlFailure tk \<noteq> None" and "\<not> httpsShortcut tk"
  shows "Summarize (Some tk) =
           Inr \<lparr>Accessible = None, BlockingReason = None, Blocking = StringPointer None\<rparr>"
proof (cases "Requests tk")
  case Nil
  show ?thesis
    using assms(1)
    by (simp add: Summarize_of_rules [OF rules_Nil [OF Nil]] local_values)
next
  case (Cons r rs)
  show ?thesis
    using assms(1)
    by (simp add: Summarize_of_rules [OF rules_Cons [OF Cons]]
          no_shortcut_Cons [OF assms(2) Cons] local_values)
qed

text \<open>
  A failed control silences the TCP rule and the content comparison, which would both
  have decided this record.
\<close>

theorem control_failure_absence_witness:
  "Summarize (Some \<lparr>Requests =
       [\<lparr>Failure = None, Request = \<lparr>URL = ''http://example.org/''\<rparr>\<rparr>],
     ControlFailure = Some ''unknown_failure'', DNSExperimentFailure = None,
     DNSConsistency = Some ''inconsistent'',
     TCPConnectAttempts = 3, TCPConnectSuccesses = 0,
     Control = \<lparr>HTTPRequest = \<lparr>HTTPFailure = None\<rparr>\<rparr>,
     StatusCodeMatch = Some True, BodyLengthMatch = Some True,
     HeadersMatch = None, TitleMatch = None\<rparr>)
   = Inr \<lparr>Accessible = None, BlockingReason = None, Blocking = StringPointer None\<rparr>"
  (is "Summarize (Some ?tk) = _")
  using control_failure_absence [of ?tk]
  by (simp add: httpsShortcut_def HasPrefix_def)

subsection \<open>C8: NXDOMAIN confirmed by the control\<close>

text \<open>
  C8. On a record that the HTTPS shortcut does not catch and whose control did not fail,
  if the DNS experiment failed with \<^verbatim>\<open>dns_nxdomain_error\<close> and \<open>DNSConsistency\<close> is
  present and consistent, \<open>Summarize\<close> returns with both \<open>Accessible\<close> and
  \<open>BlockingReason\<close> absent.
\<close>

theorem nxdomain_consistent_undetermined:
  assumes "\<not> httpsShortcut tk"
    and "ControlFailure tk = None"
    and "DNSExperimentFailure tk = Some FailureDNSNXDOMAINError"
    and "DNSConsistency tk = Some DNSConsistent"
  shows "Summarize (Some tk) =
           Inr \<lparr>Accessible = None, BlockingReason = None, Blocking = StringPointer None\<rparr>"
proof (cases "Requests tk")
  case Nil
  show ?thesis
    using assms(2-)
    by (simp add: Summarize_of_rules [OF rules_Nil [OF Nil]] local_values)
next
  case (Cons r rs)
  show ?thesis
    using assms(2-)
    by (simp add: Summarize_of_rules [OF rules_Cons [OF Cons]]
          no_shortcut_Cons [OF assms(1) Cons] local_values)
qed

text \<open>
  Without the NXDOMAIN rule the TCP rule would have reported \<^verbatim>\<open>tcp_ip\<close> on this record.
\<close>

theorem nxdomain_consistent_undetermined_witness:
  "Summarize (Some \<lparr>Requests =
       [\<lparr>Failure = Some ''dns_nxdomain_error'',
         Request = \<lparr>URL = ''http://example.org/''\<rparr>\<rparr>],
     ControlFailure = None, DNSExperimentFailure = Some ''dns_nxdomain_error'',
     DNSConsistency = Some ''consistent'',
     TCPConnectAttempts = 3, TCPConnectSuccesses = 0,
     Control = \<lparr>HTTPRequest = \<lparr>HTTPFailure = None\<rparr>\<rparr>,
     StatusCodeMatch = None, BodyLengthMatch = None,
     HeadersMatch = None, TitleMatch = None\<rparr>)
   = Inr \<lparr>Accessible = None, BlockingReason = None, Blocking = StringPointer None\<rparr>"
  (is "Summarize (Some ?tk) = _")
  using nxdomain_consistent_undetermined [of ?tk]
  by (simp add: httpsShortcut_def FailureDNSNXDOMAINError_def DNSConsistent_def)

subsection \<open>C9: totality, and the record without requests\<close>

text \<open>
  The last part of the claim as stated (with no request recorded and no control failure,
  both \<open>Accessible\<close> and \<open>BlockingReason\<close> are absent) does not hold: the TCP rule
  comes before the test for an empty list of requests, and it decides the record below.
\<close>

theorem no_requests_counterexample:
  "Summarize (Some \<lparr>Requests = [],
     ControlFailure = None, DNSExperimentFailure = None,
     DNSConsistency = Some ''consistent'',
     TCPConnectAttempts = 3, TCPConnectSuccesses = 0,
     Control = \<lparr>HTTPRequest = \<lparr>HTTPFailure = None\<rparr>\<rparr>,
     StatusCodeMatch = None, BodyLengthMatch = None,
     HeadersMatch = None, TitleMatch = None\<rparr>)
   = Inr \<lparr>Accessible = Some False, BlockingReason = Some ''tcp_ip'',
          Blocking = StringPointer (Some ''tcp_ip'')\<rparr>"
  by (simp add: evaluate)

text \<open>
  C9, amended. \<open>Summarize\<close> is total on records: for every record behind a non-nil
  pointer it returns a summary, so no dereference of an absent field and no index out of
  range is reachable (each is a panic branch of the model, and the result is never one).
  For a record with no request and no control failure, both \<open>Accessible\<close> and
  \<open>BlockingReason\<close> are absent exactly when the TCP rule gives no verdict, that is,
  unless a TCP connect was attempted, none succeeded, and \<open>DNSConsistency\<close> is
  inconsistent, or consistent without the DNS experiment having failed with
  \<^verbatim>\<open>dns_nxdomain_error\<close>.
\<close>

theorem Summarize_total:
  "\<exists>s. Summarize (Some tk) = Inr s \<and>
     (Requests tk = [] \<and> ControlFailure tk = None \<longrightarrow>
        (Accessible s = None \<and> BlockingReason s = None) =
        (\<not> (0 < TCPConnectAttempts tk \<and> TCPConnectSuccesses tk \<le> 0
            \<and> (DNSConsistency tk = Some DNSInconsistent
               \<or> DNSConsistency tk = Some DNSConsistent
                 \<and> DNSExperimentFailure tk \<noteq> Some FailureDNSNXDOMAINError))))"
proof (cases "Requests tk")
  case Nil
  show ?thesis
    using DNS_values_differ
    by (auto simp add: Summarize_of_rules [OF rules_Nil [OF Nil]] local_values Nil)
next
  case (Cons r rs)
  from rules_outcomes [of tk] obtain out where "rules tk zeroSummary = Inr out"
    by blast
  from Summarize_of_rules [OF this] show ?thesis
    by (simp add: Cons)
qed

text \<open>The record with every optional field absent, no request and both counters zero.\<close>

theorem Summarize_total_witness:
  "\<exists>s. Summarize (Some \<lparr>Requests = [],
     ControlFailure = None, DNSExperimentFailure = None, DNSConsistency = None,
     TCPConnectAttempts = 0, TCPConnectSuccesses = 0,
     Control = \<lparr>HTTPRequest = \<lparr>HTTPFailure = None\<rparr>\<rparr>,
     StatusCodeMatch = None, BodyLengthMatch = None,
     HeadersMatch = None, TitleMatch = None\<rparr>) = Inr s
   \<and> Accessible s = None \<and> BlockingReason s = None"
  (is "\<exists>s. Summarize (Some ?tk) = _ s \<and> _")
  using Summarize_total [of ?tk]
  by simp

subsection \<open>C10: the invariant of the summary\<close>

text \<open>
  C10. For every record the summary returned by \<open>Summarize\<close> has a \<open>BlockingReason\<close> if
  and only if \<open>Accessible\<close> is present and false; a reason that is present is one of
  \<^verbatim>\<open>dns\<close>, \<^verbatim>\<open>tcp_ip\<close>, \<^verbatim>\<open>http-failure\<close>, \<^verbatim>\<open>http-diff\<close>; \<open>Blocking\<close> is a reason
  string exactly when \<open>Accessible\<close> is false, and a nil pointer (\<^verbatim>\<open>null\<close>) exactly when
  \<open>Accessible\<close> is absent.
\<close>

theorem summary_invariant:
  "\<exists>s. Summarize (Some tk) = Inr s
     \<and> (BlockingReason s \<noteq> None) = (Accessible s = Some False)
     \<and> (\<forall>reason. BlockingReason s = Some reason \<longrightarrow>
          reason \<in> {''dns'', ''tcp_ip'', ''http-failure'', ''http-diff''})
     \<and> (\<exists>reason. Blocking s = StringPointer (Some reason)) = (Accessible s = Some False)
     \<and> (Blocking s = StringPointer None) = (Accessible s = None)"
proof -
  from rules_outcomes [of tk] obtain out where out: "rules tk zeroSummary = Inr out"
    and fields: "Accessible out = None \<and> BlockingReason out = None
      \<or> Accessible out = Some True \<and> BlockingReason out = None
      \<or> Accessible out = Some False \<and>
        BlockingReason out \<in>
          {Some ''dns'', Some ''tcp_ip'', Some ''http-failure'', Some ''http-diff''}"
    by blast
  from fields show ?thesis
    by (auto simp add: Summarize_of_rules [OF out])
qed

text \<open>
  An end of file on the first of two requests; the first URL is \<^verbatim>\<open>https\<close>, but the
  request failed.
\<close>

theorem summary_invariant_witness:
  "\<exists>s. Summarize (Some \<lparr>Requests =
       [\<lparr>Failure = Some ''eof_error'', Request = \<lparr>URL = ''https://example.org/''\<rparr>\<rparr>,
        \<lparr>Failure = None, Request = \<lparr>URL = ''https://example.org/''\<rparr>\<rparr>],
     ControlFailure = None, DNSExperimentFailure = None,
     DNSConsistency = Some ''inconsistent'',
     TCPConnectAttempts = 2, TCPConnectSuccesses = 1,
     Control = \<lparr>HTTPRequest = \<lparr>HTTPFailure = None\<rparr>\<rparr>,
     StatusCodeMatch = None, BodyLengthMatch = None,
     HeadersMatch = None, TitleMatch = None\<rparr>) = Inr s
   \<and> BlockingReason s = Some ''http-failure'' \<and> Accessible s = Some False
   \<and> Blocking s = StringPointer (Some ''http-failure'')"
  (is "\<exists>s. Summarize (Some ?tk) = _ s \<and> _")
  using summary_invariant [of ?tk]
  by (simp add: evaluate)

end
